theory Spec2Isabelle
  imports Complex_Main "HOL-Library.Log_Nat"
begin

section \<open>pylisp: tokenizer, parser and evaluator of \<^verbatim>\<open>src/pylisp/parser.py\<close>\<close>

text \<open>
  The development embeds the Python module \<^verbatim>\<open>pylisp/parser.py\<close>: the functions
  \<^verbatim>\<open>tokenize\<close> and \<^verbatim>\<open>parse\<close>, the classes \<^verbatim>\<open>Atom\<close>, \<^verbatim>\<open>List\<close>, \<^verbatim>\<open>Udf\<close> and \<^verbatim>\<open>Env\<close>, and the
  primitive table that \<^verbatim>\<open>Program.__init__\<close> installs in the root environment.

  Conventions.
  \<^item> A Python \<^verbatim>\<open>str\<close> is a \<^typ>\<open>string\<close>; a character is a code point below 256.
  \<^item> A Python \<^verbatim>\<open>int\<close> is an \<^typ>\<open>int\<close>; a Python \<^verbatim>\<open>float\<close> is a binary64 value, represented by
    the rational number it denotes, or one of the special values.
  \<^item> Every exception of the source is a value of the type \<open>error\<close>; a function that can
    raise returns \<open>error + 'a\<close>.
  \<^item> \<^verbatim>\<open>Env\<close> objects are mutable dictionaries shared by reference: the dictionaries live in
    a store indexed by addresses, and an \<^verbatim>\<open>Env\<close> value is the address of its own dictionary
    together with its (immutable) \<^verbatim>\<open>outer\<close> link.
  \<^item> Evaluation is recursive and need not terminate on cyclic definitions (Python stops it
    with the interpreter's recursion limit); the evaluator takes the recursion depth it
    may use as fuel and returns \<open>None\<close> when the depth is exhausted.
\<close>

subsection \<open>Python exceptions\<close>

datatype error =
    SyntaxError string
  | IndexError
  | TypeError
  | AttributeError
  | AssertionError
  | ZeroDivisionError
  | OverflowError
  | NotModelled

text \<open>
  \<open>NotModelled\<close> is not an exception of Python. It marks the few places where the outcome
  of a built-in operation depends on something this model does not represent (the identity
  of an \<^verbatim>\<open>Atom\<close> object under \<^verbatim>\<open>==\<close>, the display text of a float or of a function object,
  sequence repetition); the model declines to answer there instead of guessing.
\<close>

subsection \<open>Strings: \<^verbatim>\<open>str.replace\<close>, \<^verbatim>\<open>str.split\<close> and white space\<close>

text \<open>The white space of \<^verbatim>\<open>str.split()\<close>: the code points below 256 for which \<^verbatim>\<open>str.isspace\<close> holds.\<close>

definition is_space :: "char \<Rightarrow> bool" where
  "is_space c = (of_char c \<in> {9, 10, 11, 12, 13, 28, 29, 30, 31, 32, 133, 160 :: nat})"

definition replace_char :: "char \<Rightarrow> string \<Rightarrow> string \<Rightarrow> string" where
  "replace_char c r s = concat (map (\<lambda>x. if x = c then r else [x]) s)"

fun split_ws :: "string \<Rightarrow> string \<Rightarrow> string list" where
  "split_ws w [] = (if w = [] then [] else [w])"
| "split_ws w (c # cs) =
     (if is_space c then (if w = [] then split_ws [] cs else w # split_ws [] cs)
      else split_ws (w @ [c]) cs)"

definition split :: "string \<Rightarrow> string list" where
  "split s = split_ws [] s"

text \<open>
  \<^verbatim>\<open>int\<close> and \<^verbatim>\<open>float\<close> skip white space at both ends of their argument, but less of it than
  \<^verbatim>\<open>str.split\<close> splits on: the code points 28 to 31 separate tokens and are not skipped.
\<close>

definition is_num_space :: "char \<Rightarrow> bool" where
  "is_num_space c = (of_char c \<in> {9, 10, 11, 12, 13, 32, 133, 160 :: nat})"

definition strip :: "string \<Rightarrow> string" where
  "strip s = rev (dropWhile is_num_space (rev (dropWhile is_num_space s)))"

definition lower :: "string \<Rightarrow> string" where
  "lower s = map (\<lambda>c. if 65 \<le> (of_char c :: nat) \<and> (of_char c :: nat) \<le> 90
                        then char_of (of_char c + 32 :: nat) else c) s"

subsection \<open>\<^verbatim>\<open>tokenize\<close>\<close>

text \<open>
  \<^verbatim>\<open>return deque(s.replace("(", " ( ").replace(")", " ) ").split())\<close>.
  The deque is a list; \<^verbatim>\<open>popleft\<close> takes its head.
\<close>

definition tokenize :: "string \<Rightarrow> string list" where
  "tokenize s = split (replace_char CHR '')'' '' ) '' (replace_char CHR ''('' '' ( '' s))"

subsection \<open>Integer literals: \<^verbatim>\<open>int(token)\<close> and \<^verbatim>\<open>str(n)\<close>\<close>

definition digit_val :: "char \<Rightarrow> nat option" where
  "digit_val c = (if 48 \<le> (of_char c :: nat) \<and> (of_char c :: nat) \<le> 57
                  then Some (of_char c - 48) else None)"

text \<open>A digit part is \<^verbatim>\<open>digit (["_"] digit)*\<close>; the result lists its digits.\<close>

fun digitpart :: "string \<Rightarrow> nat list option" where
  "digitpart [] = None"
| "digitpart [c] = (case digit_val c of None \<Rightarrow> None | Some d \<Rightarrow> Some [d])"
| "digitpart (c # u # cs) =
     (case digit_val c of
        None \<Rightarrow> None
      | Some d \<Rightarrow>
          (case (if u = CHR ''_'' then digitpart cs else digitpart (u # cs)) of
             None \<Rightarrow> None
           | Some ds \<Rightarrow> Some (d # ds)))"

definition digits_value :: "nat list \<Rightarrow> int" where
  "digits_value ds = foldl (\<lambda>acc d. 10 * acc + int d) 0 ds"

text \<open>An optional sign in front of a string: the sign (\<open>True\<close> for minus) and the rest.\<close>

definition split_sign :: "string \<Rightarrow> bool \<times> string" where
  "split_sign s =
     (case s of
        [] \<Rightarrow> (False, [])
      | c # cs \<Rightarrow> if c = CHR ''-'' then (True, cs) else if c = CHR ''+'' then (False, cs) else (False, s))"

text \<open>
  \<^verbatim>\<open>int(token)\<close> in base 10; \<open>None\<close> is the \<^verbatim>\<open>ValueError\<close> that \<^verbatim>\<open>Atom.__init__\<close> catches.
  The module imports \<^verbatim>\<open>collections.Callable\<close>, which Python has up to version 3.9; there
  \<^verbatim>\<open>int\<close> and \<^verbatim>\<open>str\<close> put no limit on the number of digits.
\<close>

definition int_of_token :: "string \<Rightarrow> int option" where
  "int_of_token t =
     (let (neg, body) = split_sign (strip t) in
      case digitpart body of
        None \<Rightarrow> None
      | Some ds \<Rightarrow> Some (if neg then - digits_value ds else digits_value ds))"

definition digit_char :: "nat \<Rightarrow> char" where
  "digit_char d = char_of (48 + d)"

fun nat_digits :: "nat \<Rightarrow> string" where
  "nat_digits n = (if n < 10 then [digit_char n] else nat_digits (n div 10) @ [digit_char (n mod 10)])"

definition str_int :: "int \<Rightarrow> string" where
  "str_int i = (if i < 0 then CHR ''-'' # nat_digits (nat (- i)) else nat_digits (nat i))"

subsection \<open>Floats: binary64 values and correctly rounded conversion\<close>

text \<open>
  A finite float is the rational it denotes (\<open>Finite 0\<close> is \<^verbatim>\<open>0.0\<close>); minus zero, the
  infinities and NaN are separate values.
\<close>

datatype pyfloat = Finite rat | NegZero | PosInf | NegInf | NaN

text \<open>\<open>ilog2 q\<close> is the floor of the binary logarithm of a positive rational.\<close>

definition ilog2 :: "rat \<Rightarrow> int" where
  "ilog2 q = (if 1 \<le> q then bitlen \<lfloor>q\<rfloor> - 1 else - bitlen (\<lceil>1 / q\<rceil> - 1))"

definition pow2 :: "int \<Rightarrow> rat" where
  "pow2 e = (if 0 \<le> e then 2 ^ nat e else 1 / 2 ^ nat (- e))"

definition round_half_even :: "rat \<Rightarrow> int" where
  "round_half_even x =
     (let f = \<lfloor>x\<rfloor>; d = x - of_int f in
      if d < 1 / 2 then f else if 1 / 2 < d then f + 1 else if even f then f else f + 1)"

text \<open>
  Round a rational to the nearest binary64 value, ties to even: 53 significant bits,
  least exponent \<open>-1022\<close> (below it the values are subnormal), overflow to an infinity,
  underflow to a signed zero.
\<close>

definition round_double :: "rat \<Rightarrow> pyfloat" where
  "round_double q =
     (if q = 0 then Finite 0
      else
        let a = \<bar>q\<bar>;
            e = max (ilog2 a) (- 1022);
            u = pow2 (e - 52);
            r = of_int (round_half_even (a / u)) * u
        in if pow2 1024 \<le> r then (if 0 < q then PosInf else NegInf)
           else if r = 0 then (if 0 < q then Finite 0 else NegZero)
           else Finite (if 0 < q then r else - r))"

definition fneg :: "pyfloat \<Rightarrow> pyfloat" where
  "fneg x =
     (case x of
        Finite q \<Rightarrow> if q = 0 then NegZero else Finite (- q)
      | NegZero \<Rightarrow> Finite 0
      | PosInf \<Rightarrow> NegInf
      | NegInf \<Rightarrow> PosInf
      | NaN \<Rightarrow> NaN)"

text \<open>
  \<^verbatim>\<open>float(token)\<close>: after stripping white space, an optional sign and then \<^verbatim>\<open>inf\<close>,
  \<^verbatim>\<open>infinity\<close> or \<^verbatim>\<open>nan\<close> in any case, or a decimal number
  \<^verbatim>\<open>([digitpart] "." digitpart | digitpart ["."]) [("e"|"E") ["+"|"-"] digitpart]\<close>.
  The decimal value is converted with correct rounding.
\<close>

definition opt_digitpart :: "string \<Rightarrow> nat list option" where
  "opt_digitpart s = (if s = [] then Some [] else digitpart s)"

definition is_e :: "char \<Rightarrow> bool" where
  "is_e c = (c = CHR ''e'' \<or> c = CHR ''E'')"

definition decimal_of_token :: "string \<Rightarrow> rat option" where
  "decimal_of_token s =
     (let mant = takeWhile (\<lambda>c. \<not> is_e c) s;
          etail = dropWhile (\<lambda>c. \<not> is_e c) s;
          ipart = takeWhile (\<lambda>c. c \<noteq> CHR ''.'') mant;
          ftail = dropWhile (\<lambda>c. c \<noteq> CHR ''.'') mant;
          digs = (if ftail = [] then (case digitpart ipart of None \<Rightarrow> None | Some ds \<Rightarrow> Some (ds, []))
                  else if ipart = [] \<and> tl ftail = [] then None
                  else (case opt_digitpart ipart of
                          None \<Rightarrow> None
                        | Some ds \<Rightarrow> (case opt_digitpart (tl ftail) of
                                        None \<Rightarrow> None
                                      | Some fs \<Rightarrow> Some (ds, fs))));
          ex = (if etail = [] then Some 0
                else (let (neg, body) = split_sign (tl etail) in
                      case digitpart body of
                        None \<Rightarrow> None
                      | Some ds \<Rightarrow> Some (if neg then - digits_value ds else digits_value ds)))
      in case digs of
           None \<Rightarrow> None
         | Some (ds, fs) \<Rightarrow>
             (case ex of
                None \<Rightarrow> None
              | Some e \<Rightarrow>
                  let k = e - int (length fs) in
                  Some (of_int (digits_value (ds @ fs)) *
                        (if 0 \<le> k then 10 ^ nat k else 1 / 10 ^ nat (- k)))))"

definition float_of_token :: "string \<Rightarrow> pyfloat option" where
  "float_of_token t =
     (let (neg, body) = split_sign (strip t);
          sgn = (\<lambda>x. if neg then fneg x else x)
      in if lower body = ''inf'' \<or> lower body = ''infinity'' then Some (sgn PosInf)
         else if lower body = ''nan'' then Some NaN
         else (case decimal_of_token body of
                 None \<Rightarrow> None
               | Some q \<Rightarrow> Some (sgn (round_double q))))"

subsection \<open>Values and expressions\<close>

text \<open>
  An \<^verbatim>\<open>Atom\<close> holds \<^verbatim>\<open>self.x\<close>: an int, a float or the token text. A \<^verbatim>\<open>List\<close> is a Python list
  of arbitrary objects; it is the syntax node of a parenthesised form and the only compound
  run-time value, so expressions and values share one type. The primitives are the eleven
  callables of \<^verbatim>\<open>Program.__init__\<close>. A \<^verbatim>\<open>Udf\<close> carries \<^verbatim>\<open>arg_names\<close>, \<^verbatim>\<open>body\<close>
  and \<^verbatim>\<open>env\<close>, and the number under which it was allocated, which is its identity.
  An \<^verbatim>\<open>Env\<close> is the address of its dictionary and its \<^verbatim>\<open>outer\<close> link.
\<close>

datatype atomx = AInt int | AFloat pyfloat | ASym string

datatype prim = PAdd | PSub | PMul | PDiv | PLt | PGt | PEq | PCar | PCdr | PCons | PPrint

datatype env = Env nat "env option"

datatype val =
    VNone
  | VBool bool
  | VInt int
  | VFloat pyfloat
  | VStr string
  | VAtom atomx
  | VList "val list"
  | VPrim prim
  | VUdf nat val val env

text \<open>
  \<^verbatim>\<open>Atom.__init__\<close>: \<^verbatim>\<open>int(token)\<close>, on \<^verbatim>\<open>ValueError\<close> \<^verbatim>\<open>float(token)\<close>, on \<^verbatim>\<open>ValueError\<close> the
  token itself.
\<close>

definition Atom :: "string \<Rightarrow> val" where
  "Atom token =
     VAtom (case int_of_token token of
              Some i \<Rightarrow> AInt i
            | None \<Rightarrow> (case float_of_token token of
                         Some f \<Rightarrow> AFloat f
                       | None \<Rightarrow> ASym token))"

subsection \<open>\<^verbatim>\<open>parse\<close>\<close>

text \<open>
  \<^verbatim>\<open>parse\<close> pops the first token (\<^verbatim>\<open>popleft\<close> on an empty deque raises \<^verbatim>\<open>IndexError\<close>).
  \<open>parse_items\<close> is the \<^verbatim>\<open>while tokens[0] != ")"\<close> loop with the list built so far;
  reading \<^verbatim>\<open>tokens[0]\<close> of an empty deque raises \<^verbatim>\<open>IndexError\<close>. Both return the queue
  as they leave it.
\<close>

function parse :: "string list \<Rightarrow> (error + val) \<times> string list"
  and parse_items :: "val list \<Rightarrow> string list \<Rightarrow> (error + val) \<times> string list"
where
  "parse tokens =
     (case tokens of
        [] \<Rightarrow> (Inl IndexError, [])
      | token # rest \<Rightarrow>
          if token = ''('' then parse_items [] rest
          else if token = '')'' then (Inl (SyntaxError ''Unexpected )''), rest)
          else (Inr (Atom token), rest))"
| "parse_items sexp tokens =
     (case tokens of
        [] \<Rightarrow> (Inl IndexError, [])
      | t # rest \<Rightarrow>
          if t \<noteq> '')'' then
            (case parse tokens of
               (Inl e, tokens') \<Rightarrow> (Inl e, tokens')
             | (Inr x, tokens') \<Rightarrow>
                 if tokens' = [] then (Inl (SyntaxError ''Missing )''), tokens')
                 else parse_items (sexp @ [x]) tokens')
          else (Inr (VList sexp), rest))"
  by pat_completeness auto

lemma parse_shortens:
  "parse_parse_items_dom (Inl tokens) \<Longrightarrow> tokens \<noteq> [] \<Longrightarrow>
     length (snd (parse tokens)) < length tokens"
  "parse_parse_items_dom (Inr (sexp, tokens)) \<Longrightarrow>
     length (snd (parse_items sexp tokens)) \<le> length tokens"
proof (induct tokens and sexp tokens rule: parse_parse_items.pinduct)
  case (1 tokens)
  then show ?case
    by (cases tokens) (auto simp: parse.psimps le_imp_less_Suc)
next
  case (2 sexp tokens)
  show ?case
  proof (cases tokens)
    case Nil
    with 2 show ?thesis by (simp add: parse_items.psimps)
  next
    case (Cons t rest)
    show ?thesis
    proof (cases "t = '')''")
      case True
      with 2 Cons show ?thesis by (simp add: parse_items.psimps)
    next
      case False
      obtain r tokens' where p: "parse tokens = (r, tokens')" by (cases "parse tokens")
      from 2(2)[OF Cons False] Cons p have less: "length tokens' < length tokens" by simp
      show ?thesis
      proof (cases r)
        case (Inl e)
        with 2(1) Cons False p less show ?thesis by (simp add: parse_items.psimps)
      next
        case (Inr x)
        show ?thesis
        proof (cases "tokens' = []")
          case True
          with 2(1) Cons False p Inr show ?thesis by (simp add: parse_items.psimps)
        next
          case ne: False
          from 2(3)[OF Cons False p[symmetric] Inr ne] have "length (snd (parse_items (sexp @ [x]) tokens')) \<le> length tokens'" .
          with 2(1) Cons False p Inr ne less show ?thesis by (simp add: parse_items.psimps)
        qed
      qed
    qed
  qed
qed

termination parse
proof (relation "measure (\<lambda>a. case a of Inl ts \<Rightarrow> 2 * length ts | Inr (sexp, ts) \<Rightarrow> 2 * length ts + 1)", goal_cases)
  case 1
  show ?case by simp
next
  case (2 tokens token rest)
  then show ?case by simp
next
  case (3 sexp tokens t rest)
  then show ?case by simp
next
  case (4 sexp tokens t rest x1 tokens' x)
  from 4 have "snd (parse tokens) = tokens'" by (metis snd_conv)
  with 4 parse_shortens(1)[of tokens] show ?case by auto
qed

subsection \<open>Numbers: Python arithmetic on \<^verbatim>\<open>bool\<close>, \<^verbatim>\<open>int\<close> and \<^verbatim>\<open>float\<close>\<close>

datatype num = NI int | NF pyfloat

text \<open>\<^verbatim>\<open>bool\<close> is a subclass of \<^verbatim>\<open>int\<close>: \<^verbatim>\<open>True\<close> counts as 1.\<close>

definition as_num :: "val \<Rightarrow> num option" where
  "as_num v =
     (case v of
        VBool b \<Rightarrow> Some (NI (if b then 1 else 0))
      | VInt i \<Rightarrow> Some (NI i)
      | VFloat f \<Rightarrow> Some (NF f)
      | _ \<Rightarrow> None)"

text \<open>Converting an int to a float rounds correctly and raises \<^verbatim>\<open>OverflowError\<close> out of range.\<close>

definition to_float :: "int \<Rightarrow> error + pyfloat" where
  "to_float i =
     (case round_double (of_int i) of
        PosInf \<Rightarrow> Inl OverflowError
      | NegInf \<Rightarrow> Inl OverflowError
      | f \<Rightarrow> Inr f)"

definition fsign :: "pyfloat \<Rightarrow> bool" where
  "fsign x = (case x of Finite q \<Rightarrow> q < 0 | NegZero \<Rightarrow> True | NegInf \<Rightarrow> True | _ \<Rightarrow> False)"

definition frat :: "pyfloat \<Rightarrow> rat" where
  "frat x = (case x of Finite q \<Rightarrow> q | _ \<Rightarrow> 0)"

definition is_finite :: "pyfloat \<Rightarrow> bool" where
  "is_finite x = (case x of Finite q \<Rightarrow> True | NegZero \<Rightarrow> True | _ \<Rightarrow> False)"

definition is_zero :: "pyfloat \<Rightarrow> bool" where
  "is_zero x = (x = Finite 0 \<or> x = NegZero)"

definition signed_zero :: "bool \<Rightarrow> pyfloat" where
  "signed_zero neg = (if neg then NegZero else Finite 0)"

definition signed_inf :: "bool \<Rightarrow> pyfloat" where
  "signed_inf neg = (if neg then NegInf else PosInf)"

text \<open>The IEEE 754 operations in round-to-nearest, as Python's float arithmetic computes them.\<close>

definition fadd :: "pyfloat \<Rightarrow> pyfloat \<Rightarrow> pyfloat" where
  "fadd x y =
     (if x = NaN \<or> y = NaN then NaN
      else if \<not> is_finite x then (if is_finite y \<or> y = x then x else NaN)
      else if \<not> is_finite y then y
      else if frat x + frat y = 0 then (if x = NegZero \<and> y = NegZero then NegZero else Finite 0)
      else round_double (frat x + frat y))"

definition fsub :: "pyfloat \<Rightarrow> pyfloat \<Rightarrow> pyfloat" where
  "fsub x y = fadd x (fneg y)"

definition fmul :: "pyfloat \<Rightarrow> pyfloat \<Rightarrow> pyfloat" where
  "fmul x y =
     (if x = NaN \<or> y = NaN then NaN
      else if \<not> is_finite x \<or> \<not> is_finite y then
        (if is_zero x \<or> is_zero y then NaN else signed_inf (fsign x \<noteq> fsign y))
      else if is_zero x \<or> is_zero y then signed_zero (fsign x \<noteq> fsign y)
      else round_double (frat x * frat y))"

text \<open>Python raises \<^verbatim>\<open>ZeroDivisionError\<close> when the divisor is a zero, before anything else.\<close>

definition fdiv :: "pyfloat \<Rightarrow> pyfloat \<Rightarrow> error + pyfloat" where
  "fdiv x y =
     (if is_zero y then Inl ZeroDivisionError
      else if x = NaN \<or> y = NaN then Inr NaN
      else if \<not> is_finite x then
        (if is_finite y then Inr (signed_inf (fsign x \<noteq> fsign y)) else Inr NaN)
      else if \<not> is_finite y \<or> is_zero x then Inr (signed_zero (fsign x \<noteq> fsign y))
      else Inr (round_double (frat x / frat y)))"

text \<open>
  \<^verbatim>\<open>int / int\<close> is true division: the correctly rounded quotient, \<^verbatim>\<open>ZeroDivisionError\<close> for
  a zero divisor, \<^verbatim>\<open>OverflowError\<close> when the quotient is out of the float range.
\<close>

definition int_truediv :: "int \<Rightarrow> int \<Rightarrow> error + pyfloat" where
  "int_truediv a b =
     (if b = 0 then Inl ZeroDivisionError
      else if a = 0 then Inr (signed_zero (b < 0))
      else (case round_double (of_int a / of_int b) of
              PosInf \<Rightarrow> Inl OverflowError
            | NegInf \<Rightarrow> Inl OverflowError
            | f \<Rightarrow> Inr f))"

text \<open>
  A binary arithmetic operator on two numbers: on ints when both are ints, otherwise on
  floats after converting the int operand.
\<close>

definition num_op ::
  "(int \<Rightarrow> int \<Rightarrow> error + val) \<Rightarrow> (pyfloat \<Rightarrow> pyfloat \<Rightarrow> error + pyfloat) \<Rightarrow> num \<Rightarrow> num \<Rightarrow> error + val" where
  "num_op iop fop a b =
     (case (a, b) of
        (NI i, NI j) \<Rightarrow> iop i j
      | (NI i, NF y) \<Rightarrow>
          (case to_float i of
             Inl e \<Rightarrow> Inl e
           | Inr x \<Rightarrow> (case fop x y of Inl e \<Rightarrow> Inl e | Inr r \<Rightarrow> Inr (VFloat r)))
      | (NF x, NI j) \<Rightarrow>
          (case to_float j of
             Inl e \<Rightarrow> Inl e
           | Inr y \<Rightarrow> (case fop x y of Inl e \<Rightarrow> Inl e | Inr r \<Rightarrow> Inr (VFloat r)))
      | (NF x, NF y) \<Rightarrow> (case fop x y of Inl e \<Rightarrow> Inl e | Inr r \<Rightarrow> Inr (VFloat r)))"

text \<open>\<^verbatim>\<open>a + b\<close>, \<^verbatim>\<open>a - b\<close> and \<^verbatim>\<open>a / b\<close>, as the primitives use them: the left operand of \<^verbatim>\<open>+\<close>
  and the right operand of \<^verbatim>\<open>-\<close> are numbers there (an accumulated sum), and any other
  operand type raises \<^verbatim>\<open>TypeError\<close>.\<close>

definition py_add :: "val \<Rightarrow> val \<Rightarrow> error + val" where
  "py_add a b =
     (case (as_num a, as_num b) of
        (Some x, Some y) \<Rightarrow> num_op (\<lambda>i j. Inr (VInt (i + j))) (\<lambda>f g. Inr (fadd f g)) x y
      | _ \<Rightarrow> Inl TypeError)"

definition py_sub :: "val \<Rightarrow> val \<Rightarrow> error + val" where
  "py_sub a b =
     (case (as_num a, as_num b) of
        (Some x, Some y) \<Rightarrow> num_op (\<lambda>i j. Inr (VInt (i - j))) (\<lambda>f g. Inr (fsub f g)) x y
      | _ \<Rightarrow> Inl TypeError)"

definition py_truediv :: "val \<Rightarrow> val \<Rightarrow> error + val" where
  "py_truediv a b =
     (case (as_num a, as_num b) of
        (Some x, Some y) \<Rightarrow>
          num_op (\<lambda>i j. case int_truediv i j of Inl e \<Rightarrow> Inl e | Inr r \<Rightarrow> Inr (VFloat r)) fdiv x y
      | _ \<Rightarrow> Inl TypeError)"

text \<open>
  \<^verbatim>\<open>a * b\<close>: numbers multiply; a string times an int (in either order) is repeated;
  a \<^verbatim>\<open>List\<close> times an int is a plain Python list, which this model does not represent.
\<close>

definition py_mul :: "val \<Rightarrow> val \<Rightarrow> error + val" where
  "py_mul a b =
     (case (as_num a, as_num b) of
        (Some x, Some y) \<Rightarrow> num_op (\<lambda>i j. Inr (VInt (i * j))) (\<lambda>f g. Inr (fmul f g)) x y
      | (Some (NI i), None) \<Rightarrow>
          (case b of
             VStr t \<Rightarrow> Inr (VStr (concat (replicate (nat i) t)))
           | VList ys \<Rightarrow> Inl NotModelled
           | _ \<Rightarrow> Inl TypeError)
      | (None, Some (NI j)) \<Rightarrow>
          (case a of
             VStr t \<Rightarrow> Inr (VStr (concat (replicate (nat j) t)))
           | VList xs \<Rightarrow> Inl NotModelled
           | _ \<Rightarrow> Inl TypeError)
      | _ \<Rightarrow> Inl TypeError)"

text \<open>\<^verbatim>\<open>sum(args)\<close> starts from the int 0; \<^verbatim>\<open>reduce(operator.mul, args)\<close> has no initial
  value and raises \<^verbatim>\<open>TypeError\<close> on an empty sequence.\<close>

fun fold_op :: "(val \<Rightarrow> val \<Rightarrow> error + val) \<Rightarrow> val \<Rightarrow> val list \<Rightarrow> error + val" where
  "fold_op f acc [] = Inr acc"
| "fold_op f acc (x # xs) = (case f acc x of Inl e \<Rightarrow> Inl e | Inr acc' \<Rightarrow> fold_op f acc' xs)"

definition py_sum :: "val list \<Rightarrow> error + val" where
  "py_sum args = fold_op py_add (VInt 0) args"

definition reduce_mul :: "val list \<Rightarrow> error + val" where
  "reduce_mul args = (case args of [] \<Rightarrow> Inl TypeError | x # xs \<Rightarrow> fold_op py_mul x xs)"

subsection \<open>Python \<^verbatim>\<open>==\<close>, \<^verbatim>\<open><\<close>, truth value, subscript and \<^verbatim>\<open>str\<close>\<close>

text \<open>Numbers compare by their exact values; an int is never rounded for a comparison.\<close>

definition num_val :: "num \<Rightarrow> pyfloat" where
  "num_val x = (case x of NI i \<Rightarrow> Finite (of_int i) | NF f \<Rightarrow> f)"

definition f_eq :: "pyfloat \<Rightarrow> pyfloat \<Rightarrow> bool" where
  "f_eq x y =
     (if x = NaN \<or> y = NaN then False
      else if is_finite x \<and> is_finite y then frat x = frat y
      else x = y)"

definition f_lt :: "pyfloat \<Rightarrow> pyfloat \<Rightarrow> bool" where
  "f_lt x y =
     (if x = NaN \<or> y = NaN then False
      else if x = PosInf \<or> y = NegInf then False
      else if x = NegInf \<or> y = PosInf then True
      else frat x < frat y)"

definition is_nan :: "val \<Rightarrow> bool" where
  "is_nan v = (v = VFloat NaN)"

text \<open>
  \<^verbatim>\<open>a == b\<close>. Numbers compare by value across \<^verbatim>\<open>bool\<close>, \<^verbatim>\<open>int\<close> and \<^verbatim>\<open>float\<close>; strings and
  \<^verbatim>\<open>None\<close> by value; a \<^verbatim>\<open>List\<close> is a list and compares element by element; \<^verbatim>\<open>Atom\<close> and \<^verbatim>\<open>Udf\<close>
  define no \<^verbatim>\<open>__eq__\<close> and compare by identity, as the function objects of the primitives
  do. A \<^verbatim>\<open>Udf\<close> is identified by its allocation number and a primitive by its name. Two
  \<^verbatim>\<open>Atom\<close> values with different contents are different objects; with equal contents they
  may or may not be the same object, and the answer is \<open>None\<close> (not modelled). Inside a
  list and as dictionary keys Python takes identical objects for equal, which matters for
  NaN only: two NaN are not equal unless they are one object, so the answer is \<open>None\<close> too.
\<close>

fun py_eq :: "val \<Rightarrow> val \<Rightarrow> bool option"
  and py_eq_list :: "val list \<Rightarrow> val list \<Rightarrow> bool option"
where
  "py_eq a b =
     (case a of
        VList xs \<Rightarrow>
          (case b of
             VList ys \<Rightarrow> if length xs \<noteq> length ys then Some False else py_eq_list xs ys
           | _ \<Rightarrow> Some False)
      | VStr t \<Rightarrow> (case b of VStr u \<Rightarrow> Some (t = u) | _ \<Rightarrow> Some False)
      | VNone \<Rightarrow> Some (b = VNone)
      | VAtom x \<Rightarrow> (case b of VAtom y \<Rightarrow> if x = y then None else Some False | _ \<Rightarrow> Some False)
      | VPrim p \<Rightarrow> Some (b = VPrim p)
      | VUdf i an1 b1 e1 \<Rightarrow> (case b of VUdf j an2 b2 e2 \<Rightarrow> Some (i = j) | _ \<Rightarrow> Some False)
      | _ \<Rightarrow>
          (case (as_num a, as_num b) of
             (Some x, Some y) \<Rightarrow> Some (f_eq (num_val x) (num_val y))
           | _ \<Rightarrow> Some False))"
| "py_eq_list [] ys = Some True"
| "py_eq_list (x # xs) [] = Some False"
| "py_eq_list (x # xs) (y # ys) =
     (if is_nan x \<and> is_nan y then None
      else (case py_eq x y of
              None \<Rightarrow> None
            | Some False \<Rightarrow> Some False
            | Some True \<Rightarrow> py_eq_list xs ys))"

declare py_eq.simps [simp del]

text \<open>Equality of dictionary keys and of list elements: identical or equal.\<close>

definition key_eq :: "val \<Rightarrow> val \<Rightarrow> bool option" where
  "key_eq a b = (if is_nan a \<and> is_nan b then None else py_eq a b)"

fun str_lt :: "string \<Rightarrow> string \<Rightarrow> bool" where
  "str_lt [] [] = False"
| "str_lt [] (y # ys) = True"
| "str_lt (x # xs) [] = False"
| "str_lt (x # xs) (y # ys) =
     ((of_char x :: nat) < of_char y \<or> (x = y \<and> str_lt xs ys))"

text \<open>
  \<^verbatim>\<open>a < b\<close>: numbers by value, strings by code points, lists lexicographically (the first
  pair of elements that are not equal decides, else the lengths); any other pair of
  operand types raises \<^verbatim>\<open>TypeError\<close>.
\<close>

fun py_lt :: "val \<Rightarrow> val \<Rightarrow> error + bool"
  and py_lt_list :: "val list \<Rightarrow> val list \<Rightarrow> error + bool"
where
  "py_lt a b =
     (case a of
        VList xs \<Rightarrow> (case b of VList ys \<Rightarrow> py_lt_list xs ys | _ \<Rightarrow> Inl TypeError)
      | VStr t \<Rightarrow> (case b of VStr u \<Rightarrow> Inr (str_lt t u) | _ \<Rightarrow> Inl TypeError)
      | _ \<Rightarrow>
          (case (as_num a, as_num b) of
             (Some x, Some y) \<Rightarrow> Inr (f_lt (num_val x) (num_val y))
           | _ \<Rightarrow> Inl TypeError))"
| "py_lt_list [] [] = Inr False"
| "py_lt_list [] (y # ys) = Inr True"
| "py_lt_list (x # xs) [] = Inr False"
| "py_lt_list (x # xs) (y # ys) =
     (case key_eq x y of
        None \<Rightarrow> Inl NotModelled
      | Some True \<Rightarrow> py_lt_list xs ys
      | Some False \<Rightarrow> py_lt x y)"

declare py_lt.simps [simp del]

text \<open>\<^verbatim>\<open>bool(v)\<close>: \<^verbatim>\<open>Atom\<close>, \<^verbatim>\<open>Udf\<close> and function objects define neither \<^verbatim>\<open>__bool__\<close> nor
  \<^verbatim>\<open>__len__\<close> and are true.\<close>

definition truthy :: "val \<Rightarrow> bool" where
  "truthy v =
     (case v of
        VNone \<Rightarrow> False
      | VBool b \<Rightarrow> b
      | VInt i \<Rightarrow> i \<noteq> 0
      | VFloat f \<Rightarrow> \<not> is_zero f
      | VStr t \<Rightarrow> t \<noteq> []
      | VList xs \<Rightarrow> xs \<noteq> []
      | _ \<Rightarrow> True)"

text \<open>\<^verbatim>\<open>x[i]\<close> for an index \<open>i \<ge> 0\<close>: lists and strings are subscriptable.\<close>

definition getitem :: "val \<Rightarrow> nat \<Rightarrow> error + val" where
  "getitem x i =
     (case x of
        VList xs \<Rightarrow> if i < length xs then Inr (xs ! i) else Inl IndexError
      | VStr t \<Rightarrow> if i < length t then Inr (VStr [t ! i]) else Inl IndexError
      | _ \<Rightarrow> Inl TypeError)"

text \<open>Iterating a value: the elements of a list, the characters of a string.\<close>

definition iter :: "val \<Rightarrow> error + val list" where
  "iter x =
     (case x of
        VList xs \<Rightarrow> Inr xs
      | VStr t \<Rightarrow> Inr (map (\<lambda>c. VStr [c]) t)
      | _ \<Rightarrow> Inl TypeError)"

fun join :: "string \<Rightarrow> string list \<Rightarrow> string" where
  "join sep [] = []"
| "join sep [x] = x"
| "join sep (x # y # ys) = x @ sep @ join sep (y # ys)"

fun sequence :: "(error + 'a) list \<Rightarrow> error + 'a list" where
  "sequence [] = Inr []"
| "sequence (r # rs) =
     (case r of
        Inl e \<Rightarrow> Inl e
      | Inr x \<Rightarrow> (case sequence rs of Inl e \<Rightarrow> Inl e | Inr xs \<Rightarrow> Inr (x # xs)))"

text \<open>
  \<^verbatim>\<open>str(v)\<close>. \<^verbatim>\<open>Atom.__str__\<close> is \<^verbatim>\<open>str(self.x)\<close>; \<^verbatim>\<open>List.__str__\<close> is
  \<^verbatim>\<open>f"'({' '.join(map(str, self))})"\<close>. The text of a float (its shortest repr) and of a
  function or \<^verbatim>\<open>Udf\<close> object (which shows a memory address) are not modelled.
\<close>

fun py_str :: "val \<Rightarrow> error + string" where
  "py_str VNone = Inr ''None''"
| "py_str (VBool b) = Inr (if b then ''True'' else ''False'')"
| "py_str (VInt i) = Inr (str_int i)"
| "py_str (VFloat f) = Inl NotModelled"
| "py_str (VStr t) = Inr t"
| "py_str (VAtom (AInt i)) = Inr (str_int i)"
| "py_str (VAtom (AFloat f)) = Inl NotModelled"
| "py_str (VAtom (ASym t)) = Inr t"
| "py_str (VList xs) =
     (case sequence (map py_str xs) of
        Inl e \<Rightarrow> Inl e
      | Inr ts \<Rightarrow> Inr (CHR 0x27 # ''('' @ join '' '' ts @ '')''))"
| "py_str (VPrim p) = Inl NotModelled"
| "py_str (VUdf i an b e) = Inl NotModelled"

subsection \<open>Dictionaries and the store of environments\<close>

text \<open>
  A \<^verbatim>\<open>dict\<close> is the list of its items in insertion order. Lists are unhashable;
  every other value can be a key.
\<close>

type_synonym dict = "(val \<times> val) list"

definition hashable :: "val \<Rightarrow> bool" where
  "hashable v = (case v of VList xs \<Rightarrow> False | _ \<Rightarrow> True)"

text \<open>
  The source looks keys up with a string only (\<^verbatim>\<open>self.x in _env\<close>, \<^verbatim>\<open>_env[self.x]\<close>,
  \<^verbatim>\<open>arg_name in self\<close>), and a string equals no key but the same string.
\<close>

definition dict_lookup :: "dict \<Rightarrow> string \<Rightarrow> val option" where
  "dict_lookup d name = map_of d (VStr name)"

definition dict_contains :: "dict \<Rightarrow> string \<Rightarrow> bool" where
  "dict_contains d name = (dict_lookup d name \<noteq> None)"

text \<open>\<^verbatim>\<open>d[k] = v\<close> on a hashable key: an equal key keeps its place (and the key object), a
  new key goes last.\<close>

fun dict_set :: "dict \<Rightarrow> val \<Rightarrow> val \<Rightarrow> error + dict" where
  "dict_set [] k v = Inr [(k, v)]"
| "dict_set ((k', v') # d) k v =
     (case key_eq k' k of
        None \<Rightarrow> Inl NotModelled
      | Some True \<Rightarrow> Inr ((k', v) # d)
      | Some False \<Rightarrow> (case dict_set d k v of Inl e \<Rightarrow> Inl e | Inr d' \<Rightarrow> Inr ((k', v') # d')))"

definition setitem :: "dict \<Rightarrow> val \<Rightarrow> val \<Rightarrow> error + dict" where
  "setitem d k v = (if hashable k then dict_set d k v else Inl TypeError)"

text \<open>\<^verbatim>\<open>d.update(pairs)\<close>: the pairs are stored in order.\<close>

fun dict_update :: "dict \<Rightarrow> (val \<times> val) list \<Rightarrow> error + dict" where
  "dict_update d [] = Inr d"
| "dict_update d ((k, v) # kvs) =
     (case setitem d k v of Inl e \<Rightarrow> Inl e | Inr d' \<Rightarrow> dict_update d' kvs)"

text \<open>
  The state of a session: the dictionary of every \<^verbatim>\<open>Env\<close> object by address, the next
  unused object number (\<^verbatim>\<open>Env\<close> and \<^verbatim>\<open>Udf\<close> objects are numbered as they are created), and
  \<^verbatim>\<open>Program.stdout\<close>.
\<close>

record state =
  frames :: "nat \<Rightarrow> dict"
  fresh :: nat
  stdout :: "string list"

definition addr :: "env \<Rightarrow> nat" where
  "addr e = (case e of Env a out \<Rightarrow> a)"


text \<open>The truth value of an \<^verbatim>\<open>Env\<close> is that of its dictionary: false when it is empty.\<close>

definition env_truthy :: "env \<Rightarrow> state \<Rightarrow> bool" where
  "env_truthy e s = (frames s (addr e) \<noteq> [])"

subsection \<open>\<^verbatim>\<open>Env.find\<close> and \<^verbatim>\<open>Atom.eval\<close>\<close>

text \<open>
  \<^verbatim>\<open>return self if not self.outer or arg_name in self else self.outer.find(arg_name)\<close>.
  \<^verbatim>\<open>not self.outer\<close> holds when there is no outer environment and when the outer
  environment is an empty dictionary.
\<close>

fun find :: "env \<Rightarrow> string \<Rightarrow> state \<Rightarrow> env" where
  "find (Env a out) arg_name s =
     (case out of
        None \<Rightarrow> Env a out
      | Some o' \<Rightarrow>
          if \<not> env_truthy o' s \<or> dict_contains (frames s a) arg_name then Env a out
          else find o' arg_name s)"

text \<open>
  \<^verbatim>\<open>Atom.eval(self, env=None)\<close>: with a true \<^verbatim>\<open>env\<close> and a string \<^verbatim>\<open>self.x\<close>, look the frame
  up with \<^verbatim>\<open>find\<close> and return the binding if that frame has one; otherwise return
  \<^verbatim>\<open>self.x\<close>.
\<close>

definition atom_value :: "atomx \<Rightarrow> val" where
  "atom_value x = (case x of AInt i \<Rightarrow> VInt i | AFloat f \<Rightarrow> VFloat f | ASym t \<Rightarrow> VStr t)"

definition atom_eval :: "atomx \<Rightarrow> env option \<Rightarrow> state \<Rightarrow> val" where
  "atom_eval x env s =
     (case env of
        None \<Rightarrow> atom_value x
      | Some e \<Rightarrow>
          (case x of
             ASym name \<Rightarrow>
               if env_truthy e s then
                 (case dict_lookup (frames s (addr (find e name s))) name of
                    Some v \<Rightarrow> v
                  | None \<Rightarrow> atom_value x)
               else atom_value x
           | _ \<Rightarrow> atom_value x))"

subsection \<open>The primitives of \<^verbatim>\<open>Program.__init__\<close>\<close>

definition KW_ATOM :: string where "KW_ATOM = ''atom?''"
definition KW_QUOTE :: string where "KW_QUOTE = ''quote''"
definition KW_DEFINE :: string where "KW_DEFINE = ''define''"
definition KW_LAMBDA :: string where "KW_LAMBDA = ''lambda''"
definition KW_COND :: string where "KW_COND = ''cond''"

text \<open>
  Each primitive applied to the argument tuple \<^verbatim>\<open>args\<close>. The lambdas with \<^verbatim>\<open>*args\<close> take
  any number of arguments; \<^verbatim>\<open>operator.lt\<close>, \<^verbatim>\<open>operator.gt\<close>, \<^verbatim>\<open>operator.eq\<close> and the lambdas
  with one or two parameters raise \<^verbatim>\<open>TypeError\<close> on any other number.
  \<^item> \<^verbatim>\<open>"+": lambda *args: sum(args)\<close>
  \<^item> \<^verbatim>\<open>"-": lambda *args: args[0] - sum(args[1:])\<close>
  \<^item> \<^verbatim>\<open>"*": lambda *args: reduce(operator.mul, args)\<close>
  \<^item> \<^verbatim>\<open>"/": lambda *args: args[0] / reduce(operator.mul, args[1:])\<close>
  \<^item> \<^verbatim>\<open>"car": lambda x: x[0]\<close>, \<^verbatim>\<open>"cdr": lambda x: List(x[1:])\<close>
  \<^item> \<^verbatim>\<open>"cons": lambda x, y: List([x] + y) if isinstance(y, List) else List([x] + [y])\<close>
  \<^item> \<^verbatim>\<open>"print": lambda x: self.stdout.append(str(x))\<close>
\<close>

definition apply_prim :: "prim \<Rightarrow> val list \<Rightarrow> state \<Rightarrow> (error + val) \<times> state" where
  "apply_prim p args s =
     (case p of
        PAdd \<Rightarrow> (py_sum args, s)
      | PSub \<Rightarrow>
          (case args of
             [] \<Rightarrow> (Inl IndexError, s)
           | a # rest \<Rightarrow> (case py_sum rest of Inl e \<Rightarrow> (Inl e, s) | Inr b \<Rightarrow> (py_sub a b, s)))
      | PMul \<Rightarrow> (reduce_mul args, s)
      | PDiv \<Rightarrow>
          (case args of
             [] \<Rightarrow> (Inl IndexError, s)
           | a # rest \<Rightarrow> (case reduce_mul rest of Inl e \<Rightarrow> (Inl e, s) | Inr b \<Rightarrow> (py_truediv a b, s)))
      | PLt \<Rightarrow>
          (case args of
             [a, b] \<Rightarrow> (case py_lt a b of Inl e \<Rightarrow> (Inl e, s) | Inr r \<Rightarrow> (Inr (VBool r), s))
           | _ \<Rightarrow> (Inl TypeError, s))
      | PGt \<Rightarrow>
          (case args of
             [a, b] \<Rightarrow> (case py_lt b a of Inl e \<Rightarrow> (Inl e, s) | Inr r \<Rightarrow> (Inr (VBool r), s))
           | _ \<Rightarrow> (Inl TypeError, s))
      | PEq \<Rightarrow>
          (case args of
             [a, b] \<Rightarrow> (case py_eq a b of None \<Rightarrow> (Inl NotModelled, s) | Some r \<Rightarrow> (Inr (VBool r), s))
           | _ \<Rightarrow> (Inl TypeError, s))
      | PCar \<Rightarrow> (case args of [x] \<Rightarrow> (getitem x 0, s) | _ \<Rightarrow> (Inl TypeError, s))
      | PCdr \<Rightarrow>
          (case args of
             [x] \<Rightarrow> (case iter x of Inl e \<Rightarrow> (Inl e, s) | Inr xs \<Rightarrow> (Inr (VList (tl xs)), s))
           | _ \<Rightarrow> (Inl TypeError, s))
      | PCons \<Rightarrow>
          (case args of
             [x, y] \<Rightarrow> (case y of VList ys \<Rightarrow> (Inr (VList (x # ys)), s) | _ \<Rightarrow> (Inr (VList [x, y]), s))
           | _ \<Rightarrow> (Inl TypeError, s))
      | PPrint \<Rightarrow>
          (case args of
             [x] \<Rightarrow>
               (case py_str x of
                  Inl e \<Rightarrow> (Inl e, s)
                | Inr t \<Rightarrow> (Inr VNone, s\<lparr>stdout := stdout s @ [t]\<rparr>))
           | _ \<Rightarrow> (Inl TypeError, s)))"

text \<open>The root environment's dictionary, in the order of the \<^verbatim>\<open>update\<close> call.\<close>

definition root_dict :: dict where
  "root_dict =
     [(VStr ''+'', VPrim PAdd), (VStr ''-'', VPrim PSub), (VStr ''*'', VPrim PMul),
      (VStr ''/'', VPrim PDiv), (VStr ''<'', VPrim PLt), (VStr ''>'', VPrim PGt),
      (VStr ''eq?'', VPrim PEq), (VStr ''car'', VPrim PCar), (VStr ''cdr'', VPrim PCdr),
      (VStr ''cons'', VPrim PCons), (VStr ''print'', VPrim PPrint)]"

text \<open>A fresh \<^verbatim>\<open>Program\<close> (with \<^verbatim>\<open>env=None\<close>): \<^verbatim>\<open>self.env\<close> is the \<^verbatim>\<open>Env\<close> at address 0, without
  an outer environment, and \<^verbatim>\<open>self.stdout\<close> is empty.\<close>

definition root_env :: env where
  "root_env = Env 0 None"

definition Program_init :: state where
  "Program_init = \<lparr>frames = (\<lambda>a. [])(0 := root_dict), fresh = 1, stdout = []\<rparr>"

subsection \<open>\<^verbatim>\<open>List.eval\<close>, \<^verbatim>\<open>Atom.eval\<close> and \<^verbatim>\<open>Udf.__call__\<close>\<close>

definition is_Atom :: "val \<Rightarrow> bool" where
  "is_Atom v = (case v of VAtom x \<Rightarrow> True | _ \<Rightarrow> False)"

definition is_list :: "val \<Rightarrow> bool" where
  "is_list v = (case v of VList xs \<Rightarrow> True | _ \<Rightarrow> False)"

definition callable :: "val \<Rightarrow> bool" where
  "callable v = (case v of VPrim p \<Rightarrow> True | VUdf i an b e \<Rightarrow> True | _ \<Rightarrow> False)"

text \<open>\<^verbatim>\<open>env[k] = v\<close> on the dictionary of \<^verbatim>\<open>env\<close> in the store.\<close>

definition env_setitem :: "env \<Rightarrow> val \<Rightarrow> val \<Rightarrow> state \<Rightarrow> (error + val) \<times> state" where
  "env_setitem env k v s =
     (case setitem (frames s (addr env)) k v of
        Inl e \<Rightarrow> (Inl e, s)
      | Inr d \<Rightarrow> (Inr VNone, s\<lparr>frames := (frames s)(addr env := d)\<rparr>))"

text \<open>\<^verbatim>\<open>Udf(arg_names, body, env)\<close>: a new object, numbered \<open>fresh s\<close>.\<close>

definition new_udf :: "val \<Rightarrow> val \<Rightarrow> env \<Rightarrow> state \<Rightarrow> val \<times> state" where
  "new_udf arg_names body env s = (VUdf (fresh s) arg_names body env, s\<lparr>fresh := Suc (fresh s)\<rparr>)"

text \<open>
  \<^verbatim>\<open>Env(arg_names, args, outer)\<close>: a new dictionary at address \<open>fresh s\<close>, filled by
  \<^verbatim>\<open>self.update(zip(arg_names, args))\<close>, which raises \<^verbatim>\<open>TypeError\<close> on an unhashable name.
\<close>

definition new_env :: "val list \<Rightarrow> val list \<Rightarrow> env \<Rightarrow> state \<Rightarrow> (error + env) \<times> state" where
  "new_env arg_names args out s =
     (case dict_update [] (zip arg_names args) of
        Inl e \<Rightarrow> (Inl e, s\<lparr>fresh := Suc (fresh s)\<rparr>)
      | Inr d \<Rightarrow>
          (Inr (Env (fresh s) (Some out)),
           s\<lparr>frames := (frames s)(fresh s := d), fresh := Suc (fresh s)\<rparr>))"

text \<open>
  The evaluator. \<^verbatim>\<open>Atom.eval\<close>, \<^verbatim>\<open>List.eval\<close> and \<^verbatim>\<open>Udf.__call__\<close> call each other
  recursively, and a cyclic definition makes the recursion endless (Python stops it at its
  recursion limit). The model bounds the depth of nested \<^verbatim>\<open>eval\<close> calls: \<open>eval n\<close> may
  nest \<open>n\<close> deep, and \<open>None\<close> means that the depth did not suffice. A result is the value
  returned or the exception raised, together with the state at that point.

  The functions below are the bodies of the source's methods; their first argument \<open>ev\<close>
  stands for the recursive call \<^verbatim>\<open>.eval(env)\<close> on a sub-expression, which \<open>eval\<close> ties to
  the evaluator of the next smaller depth.
\<close>

type_synonym 'a result = "((error + 'a) \<times> state) option"

type_synonym evaluator = "val \<Rightarrow> env \<Rightarrow> state \<Rightarrow> val result"

text \<open>The comprehension \<^verbatim>\<open>[item.eval(env) for item in items]\<close>, left to right.\<close>

fun eval_items :: "evaluator \<Rightarrow> val list \<Rightarrow> env \<Rightarrow> state \<Rightarrow> (val list) result" where
  "eval_items ev [] env s = Some (Inr [], s)"
| "eval_items ev (item # items) env s =
     (case ev item env s of
        None \<Rightarrow> None
      | Some (Inl err, s1) \<Rightarrow> Some (Inl err, s1)
      | Some (Inr v, s1) \<Rightarrow>
          (case eval_items ev items env s1 of
             None \<Rightarrow> None
           | Some (Inl err, s2) \<Rightarrow> Some (Inl err, s2)
           | Some (Inr vs, s2) \<Rightarrow> Some (Inr (v # vs), s2)))"

text \<open>
  \<^verbatim>\<open>Udf.__call__(self, *args)\<close>:
  \<^verbatim>\<open>self.body.eval(Env([arg_name.eval(self.env) for arg_name in self.arg_names], args, self.env))\<close>;
  and \<^verbatim>\<open>op(*values)\<close> for any callable \<^verbatim>\<open>op\<close>. Calling an object that is not callable raises
  \<^verbatim>\<open>TypeError\<close>.
\<close>

definition Udf_call :: "evaluator \<Rightarrow> val \<Rightarrow> val \<Rightarrow> env \<Rightarrow> val list \<Rightarrow> state \<Rightarrow> val result" where
  "Udf_call ev arg_names body cenv args s =
     (case iter arg_names of
        Inl err \<Rightarrow> Some (Inl err, s)
      | Inr names \<Rightarrow>
          (case eval_items ev names cenv s of
             None \<Rightarrow> None
           | Some (Inl err, s1) \<Rightarrow> Some (Inl err, s1)
           | Some (Inr keys, s1) \<Rightarrow>
               (case new_env keys args cenv s1 of
                  (Inl err, s2) \<Rightarrow> Some (Inl err, s2)
                | (Inr env', s2) \<Rightarrow> ev body env' s2)))"

definition call :: "evaluator \<Rightarrow> val \<Rightarrow> val list \<Rightarrow> state \<Rightarrow> val result" where
  "call ev op values s =
     (case op of
        VPrim p \<Rightarrow> Some (apply_prim p values s)
      | VUdf i arg_names body cenv \<Rightarrow> Udf_call ev arg_names body cenv values s
      | _ \<Rightarrow> Some (Inl TypeError, s))"

text \<open>The branches of \<^verbatim>\<open>List.eval\<close>, in the order of its \<^verbatim>\<open>if\<close>/\<^verbatim>\<open>elif\<close> chain.\<close>

text \<open>\<^verbatim>\<open>assert len(args) == 1; return args[0]\<close>\<close>

definition quote_form :: "val list \<Rightarrow> state \<Rightarrow> val result" where
  "quote_form args s =
     (if length args = 1 then Some (Inr (args ! 0), s) else Some (Inl AssertionError, s))"

text \<open>\<^verbatim>\<open>assert len(args) == 1;
  return isinstance(args[0], Atom) or not isinstance(args[0].eval(env), list)\<close>\<close>

definition atom_form :: "evaluator \<Rightarrow> val list \<Rightarrow> env \<Rightarrow> state \<Rightarrow> val result" where
  "atom_form ev args env s =
     (if length args \<noteq> 1 then Some (Inl AssertionError, s)
      else if is_Atom (args ! 0) then Some (Inr (VBool True), s)
      else
        (case ev (args ! 0) env s of
           None \<Rightarrow> None
         | Some (Inl err, s1) \<Rightarrow> Some (Inl err, s1)
         | Some (Inr v, s1) \<Rightarrow> Some (Inr (VBool (\<not> is_list v)), s1)))"

text \<open>\<^verbatim>\<open>assert len(args) == 2; env[args[0].eval(env)] = args[1].eval(env); return None\<close>.
  Python evaluates the right-hand side of the assignment before the subscript.\<close>

definition define_form :: "evaluator \<Rightarrow> val list \<Rightarrow> env \<Rightarrow> state \<Rightarrow> val result" where
  "define_form ev args env s =
     (if length args \<noteq> 2 then Some (Inl AssertionError, s)
      else
        (case ev (args ! 1) env s of
           None \<Rightarrow> None
         | Some (Inl err, s1) \<Rightarrow> Some (Inl err, s1)
         | Some (Inr v, s1) \<Rightarrow>
             (case ev (args ! 0) env s1 of
                None \<Rightarrow> None
              | Some (Inl err, s2) \<Rightarrow> Some (Inl err, s2)
              | Some (Inr k, s2) \<Rightarrow> Some (env_setitem env k v s2))))"

text \<open>\<^verbatim>\<open>assert len(args) == 2; return Udf(args[0], args[1], env)\<close>\<close>

definition lambda_form :: "val list \<Rightarrow> env \<Rightarrow> state \<Rightarrow> val result" where
  "lambda_form args env s =
     (if length args \<noteq> 2 then Some (Inl AssertionError, s)
      else (let (udf, s1) = new_udf (args ! 0) (args ! 1) env s in Some (Inr udf, s1)))"

text \<open>\<^verbatim>\<open>for test_expression in args:
    if test_expression[0].eval(env): return test_expression[1].eval(env)\<close>
  and \<^verbatim>\<open>return None\<close> after the loop.\<close>

fun cond_form :: "evaluator \<Rightarrow> val list \<Rightarrow> env \<Rightarrow> state \<Rightarrow> val result" where
  "cond_form ev [] env s = Some (Inr VNone, s)"
| "cond_form ev (test_expression # rest) env s =
     (case getitem test_expression 0 of
        Inl err \<Rightarrow> Some (Inl err, s)
      | Inr test \<Rightarrow>
          (case ev test env s of
             None \<Rightarrow> None
           | Some (Inl err, s1) \<Rightarrow> Some (Inl err, s1)
           | Some (Inr b, s1) \<Rightarrow>
               if truthy b then
                 (case getitem test_expression 1 of
                    Inl err \<Rightarrow> Some (Inl err, s1)
                  | Inr result \<Rightarrow> ev result env s1)
               else cond_form ev rest env s1))"

text \<open>\<^verbatim>\<open>values = [item.eval(env) for item in self[:-1]];
  assert isinstance(op, Callable); return op(*values)\<close>\<close>

definition application :: "evaluator \<Rightarrow> val \<Rightarrow> val list \<Rightarrow> env \<Rightarrow> state \<Rightarrow> val result" where
  "application ev op args env s =
     (case eval_items ev args env s of
        None \<Rightarrow> None
      | Some (Inl err, s1) \<Rightarrow> Some (Inl err, s1)
      | Some (Inr values, s1) \<Rightarrow>
          if callable op then call ev op values s1 else Some (Inl AssertionError, s1))"

text \<open>The dispatch on the evaluated operator \<^verbatim>\<open>op\<close>.\<close>

definition dispatch :: "evaluator \<Rightarrow> val \<Rightarrow> val list \<Rightarrow> env \<Rightarrow> state \<Rightarrow> val result" where
  "dispatch ev op args env s =
     (if op = VStr KW_QUOTE then quote_form args s
      else if op = VStr KW_ATOM then atom_form ev args env s
      else if op = VStr KW_DEFINE then define_form ev args env s
      else if op = VStr KW_LAMBDA then lambda_form args env s
      else if op = VStr KW_COND then cond_form ev args env s
      else application ev op args env s)"

text \<open>\<^verbatim>\<open>List.eval(self, env)\<close>: \<^verbatim>\<open>args = self[:-1]\<close>, \<^verbatim>\<open>op = self[-1].eval(env)\<close> (an
  \<^verbatim>\<open>IndexError\<close> on the empty list), then the dispatch.\<close>

definition List_eval :: "evaluator \<Rightarrow> val list \<Rightarrow> env \<Rightarrow> state \<Rightarrow> val result" where
  "List_eval ev self env s =
     (let args = butlast self in
      if self = [] then Some (Inl IndexError, s)
      else
        (case ev (last self) env s of
           None \<Rightarrow> None
         | Some (Inl err, s1) \<Rightarrow> Some (Inl err, s1)
         | Some (Inr op, s1) \<Rightarrow> dispatch ev op args env s1))"

text \<open>\<^verbatim>\<open>e.eval(env)\<close> by the class of \<^verbatim>\<open>e\<close>; only \<^verbatim>\<open>Atom\<close> and \<^verbatim>\<open>List\<close> have the method.\<close>

definition eval_method :: "evaluator \<Rightarrow> val \<Rightarrow> env \<Rightarrow> state \<Rightarrow> val result" where
  "eval_method ev e env s =
     (case e of
        VAtom x \<Rightarrow> Some (Inr (atom_eval x (Some env) s), s)
      | VList items \<Rightarrow> List_eval ev items env s
      | _ \<Rightarrow> Some (Inl AttributeError, s))"

fun eval :: "nat \<Rightarrow> val \<Rightarrow> env \<Rightarrow> state \<Rightarrow> val result" where
  "eval 0 e env s = None"
| "eval (Suc n) e env s = eval_method (eval n) e env s"

subsection \<open>The scope chain of an environment\<close>

text \<open>The addresses of the frames that \<^verbatim>\<open>env\<close>, \<^verbatim>\<open>env.outer\<close>, \<^verbatim>\<open>env.outer.outer\<close>, ... own.\<close>

fun chain :: "env \<Rightarrow> nat list" where
  "chain (Env a out) = a # (case out of None \<Rightarrow> [] | Some o' \<Rightarrow> chain o')"

subsection \<open>Notions for reasoning about tokens\<close>

text \<open>
  The parentheses; the text after both \<^verbatim>\<open>replace\<close> calls of \<^verbatim>\<open>tokenize\<close>; what every token
  that \<^verbatim>\<open>tokenize\<close> returns satisfies (it is not empty, has no white space, and is a single
  parenthesis or has none); the decimal digits.
\<close>

definition paren :: "char \<Rightarrow> bool" where
  "paren c = (c = CHR ''('' \<or> c = CHR '')'')"




section \<open>Properties\<close>

subsection \<open>Unfolding the evaluator on concrete programs\<close>

lemmas tokenize_defs = tokenize_def split_def replace_char_def is_space_def

lemmas Atom_defs = Atom_def int_of_token_def float_of_token_def decimal_of_token_def
  split_sign_def strip_def is_num_space_def digit_val_def digits_value_def lower_def is_e_def
  opt_digitpart_def

lemmas keyword_defs = KW_QUOTE_def KW_ATOM_def KW_DEFINE_def KW_LAMBDA_def KW_COND_def

lemmas eval_defs = eval_method_def List_eval_def dispatch_def application_def call_def
  atom_eval_def atom_value_def env_truthy_def addr_def dict_lookup_def dict_contains_def
  callable_def keyword_defs

lemmas root_defs = root_env_def Program_init_def root_dict_def

lemma bitlen_4: "bitlen 4 = 3"
  by (simp add: compute_bitlen)

lemma round_double_4: "round_double 4 = Finite 4"
  by (simp add: round_double_def ilog2_def pow2_def round_half_even_def Let_def bitlen_4)

lemma eval_add_3_4:
  "eval (Suc (Suc n)) (VList [VAtom (AInt 3), VAtom (AInt 4), VAtom (ASym ''+'')])
     root_env Program_init = Some (Inr (VInt 7), Program_init)"
  by (simp add: eval_defs root_defs apply_prim_def py_sum_def py_add_def as_num_def num_op_def)

lemma eval_sub_10_2_3:
  "eval (Suc (Suc n)) (VList [VAtom (AInt 10), VAtom (AInt 2), VAtom (AInt 3), VAtom (ASym ''-'')])
     root_env Program_init = Some (Inr (VInt 5), Program_init)"
  by (simp add: eval_defs root_defs apply_prim_def py_sum_def py_add_def py_sub_def as_num_def
      num_op_def)

lemma eval_mul_2_3_4:
  "eval (Suc (Suc n)) (VList [VAtom (AInt 2), VAtom (AInt 3), VAtom (AInt 4), VAtom (ASym ''*'')])
     root_env Program_init = Some (Inr (VInt 24), Program_init)"
  by (simp add: eval_defs root_defs apply_prim_def reduce_mul_def py_mul_def as_num_def num_op_def)

lemma eval_div_24_2_3:
  "eval (Suc (Suc n)) (VList [VAtom (AInt 24), VAtom (AInt 2), VAtom (AInt 3), VAtom (ASym ''/'')])
     root_env Program_init = Some (Inr (VFloat (Finite 4)), Program_init)"
  by (simp add: eval_defs root_defs apply_prim_def reduce_mul_def py_mul_def py_truediv_def
      int_truediv_def as_num_def num_op_def round_double_4)

lemma float_4_eq_int_4: "py_eq (VFloat (Finite 4)) (VInt 4) = Some True"
  by (simp add: py_eq.simps as_num_def num_val_def f_eq_def is_finite_def frat_def)

lemma parse_arith_sources:
  "parse (tokenize ''(3 4 +)'') =
     (Inr (VList [VAtom (AInt 3), VAtom (AInt 4), VAtom (ASym ''+'')]), [])"
  "parse (tokenize ''(10 2 3 -)'') =
     (Inr (VList [VAtom (AInt 10), VAtom (AInt 2), VAtom (AInt 3), VAtom (ASym ''-'')]), [])"
  "parse (tokenize ''(2 3 4 *)'') =
     (Inr (VList [VAtom (AInt 2), VAtom (AInt 3), VAtom (AInt 4), VAtom (ASym ''*'')]), [])"
  "parse (tokenize ''(24 2 3 /)'') =
     (Inr (VList [VAtom (AInt 24), VAtom (AInt 2), VAtom (AInt 3), VAtom (ASym ''/'')]), [])"
  by (simp_all add: tokenize_defs Atom_defs)

subsection \<open>Shared lemmas: the scope chain, dictionaries, the dispatch\<close>




lemma chain_nonempty: "chain e \<noteq> []"
  by (cases e) simp



lemma key_eq_VStr: "key_eq a (VStr t) = Some (a = VStr t)"
  by (cases a) (auto simp: key_eq_def is_nan_def py_eq.simps as_num_def split: option.splits)






subsection \<open>C1: operand-last arithmetic in the root environment\<close>

text \<open>
  C1. In the root environment the List \<^verbatim>\<open>(3 4 +)\<close> evaluates to 7, \<^verbatim>\<open>(10 2 3 -)\<close> to 5,
  \<^verbatim>\<open>(2 3 4 *)\<close> to 24 and \<^verbatim>\<open>(24 2 3 /)\<close> to 4, at every depth of at least two nested
  calls, without changing the state. The operator is the last element and the elements
  before it are the operands. The quotient is the float \<^verbatim>\<open>4.0\<close> (Python's \<^verbatim>\<open>/\<close> is true
  division), which equals the integer 4 under Python's \<^verbatim>\<open>==\<close>. The four expressions are
  the trees that \<^verbatim>\<open>parse\<close> builds from the source texts.
\<close>

theorem operand_last_arithmetic:
  "parse (tokenize ''(3 4 +)'') =
     (Inr (VList [VAtom (AInt 3), VAtom (AInt 4), VAtom (ASym ''+'')]), []) \<and>
   eval (Suc (Suc n)) (VList [VAtom (AInt 3), VAtom (AInt 4), VAtom (ASym ''+'')])
     root_env Program_init = Some (Inr (VInt 7), Program_init) \<and>
   parse (tokenize ''(10 2 3 -)'') =
     (Inr (VList [VAtom (AInt 10), VAtom (AInt 2), VAtom (AInt 3), VAtom (ASym ''-'')]), []) \<and>
   eval (Suc (Suc n)) (VList [VAtom (AInt 10), VAtom (AInt 2), VAtom (AInt 3), VAtom (ASym ''-'')])
     root_env Program_init = Some (Inr (VInt 5), Program_init) \<and>
   parse (tokenize ''(2 3 4 *)'') =
     (Inr (VList [VAtom (AInt 2), VAtom (AInt 3), VAtom (AInt 4), VAtom (ASym ''*'')]), []) \<and>
   eval (Suc (Suc n)) (VList [VAtom (AInt 2), VAtom (AInt 3), VAtom (AInt 4), VAtom (ASym ''*'')])
     root_env Program_init = Some (Inr (VInt 24), Program_init) \<and>
   parse (tokenize ''(24 2 3 /)'') =
     (Inr (VList [VAtom (AInt 24), VAtom (AInt 2), VAtom (AInt 3), VAtom (ASym ''/'')]), []) \<and>
   eval (Suc (Suc n)) (VList [VAtom (AInt 24), VAtom (AInt 2), VAtom (AInt 3), VAtom (ASym ''/'')])
     root_env Program_init = Some (Inr (VFloat (Finite 4)), Program_init) \<and>
   py_eq (VFloat (Finite 4)) (VInt 4) = Some True"
  using parse_arith_sources eval_add_3_4 eval_sub_10_2_3 eval_mul_2_3_4 eval_div_24_2_3
    float_4_eq_int_4
  by blast

subsection \<open>C8: the empty List\<close>

text \<open>
  C8. The source \<^verbatim>\<open>()\<close> parses to the empty List, and evaluating the empty List in any
  environment and state raises \<^verbatim>\<open>IndexError\<close> (from \<^verbatim>\<open>self[-1]\<close>) at every depth of at
  least one call; it returns a value at no depth.
\<close>

theorem empty_list_eval_fails:
  "parse (tokenize ''()'') = (Inr (VList []), []) \<and>
   eval (Suc n) (VList []) env s = Some (Inl IndexError, s) \<and>
   eval m (VList []) env s \<noteq> Some (Inr v, s')"
  by (cases m) (simp_all add: tokenize_defs eval_method_def List_eval_def)

subsection \<open>C2: evaluating a symbol\<close>




subsection \<open>C3: a queue that ends inside an open form\<close>

text \<open>
  C3. The queue that holds the single token \<^verbatim>\<open>(\<close> (the tokens of the source text
  \<^verbatim>\<open>(\<close>) makes \<^verbatim>\<open>parse\<close> raise \<^verbatim>\<open>IndexError\<close>, not \<^verbatim>\<open>SyntaxError\<close>: \<^verbatim>\<open>tokens[0]\<close> is read from
  the empty queue before the test \<^verbatim>\<open>if not tokens\<close> is reached. A queue that ends after a
  complete element, such as \<^verbatim>\<open>( a\<close> or \<^verbatim>\<open>( ( a )\<close>, raises \<^verbatim>\<open>SyntaxError("Missing )")\<close>.
\<close>

theorem parse_open_paren_only:
  "tokenize ''('' = [''(''] \<and> parse [''(''] = (Inl IndexError, []) \<and>
   parse [''('', ''a''] = (Inl (SyntaxError ''Missing )''), []) \<and>
   parse [''('', ''('', ''a'', '')''] = (Inl (SyntaxError ''Missing )''), [])"
  by (simp add: tokenize_defs)

subsection \<open>C7: the primitive \<^verbatim>\<open>/\<close> on a single argument\<close>

text \<open>
  C7. Applied to the single argument 5, the primitive \<^verbatim>\<open>/\<close> raises \<^verbatim>\<open>TypeError\<close>:
  \<^verbatim>\<open>reduce(operator.mul, args[1:])\<close> has no initial value and its sequence is empty. So does
  the program \<^verbatim>\<open>(5 /)\<close> in the root environment. The primitive \<^verbatim>\<open>-\<close>, written the same way
  with \<^verbatim>\<open>sum\<close>, returns its single argument.
\<close>

theorem div_single_argument:
  "apply_prim PDiv [VInt 5] s = (Inl TypeError, s) \<and>
   parse (tokenize ''(5 /)'') = (Inr (VList [VAtom (AInt 5), VAtom (ASym ''/'')]), []) \<and>
   eval (Suc (Suc n)) (VList [VAtom (AInt 5), VAtom (ASym ''/'')]) root_env Program_init
     = Some (Inl TypeError, Program_init) \<and>
   apply_prim PSub [VInt 5] s = (Inr (VInt 5), s)"
  by (simp add: eval_defs root_defs apply_prim_def reduce_mul_def py_sum_def py_sub_def
      as_num_def num_op_def tokenize_defs Atom_defs)

subsection \<open>C9: \<^verbatim>\<open>define\<close> evaluates its name operand\<close>



subsection \<open>C10: the keywords are not reserved\<close>




subsection \<open>C5: \<^verbatim>\<open>define\<close> writes into the current frame only\<close>




subsection \<open>C6: calling a closure pairs formals and actuals without an arity check\<close>

lemma dict_set_new_str:
  "VStr t \<notin> fst ` set d \<Longrightarrow> dict_set d (VStr t) v = Inr (d @ [(VStr t, v)])"
  by (induction d) (auto simp: key_eq_VStr)

lemma dict_update_distinct_str:
  "distinct ts \<Longrightarrow> fst ` set d \<inter> VStr ` set ts = {} \<Longrightarrow>
   dict_update d (zip (map VStr ts) vs) = Inr (d @ zip (map VStr ts) vs)"
proof (induction ts arbitrary: d vs)
  case Nil
  then show ?case by simp
next
  case (Cons t ts)
  show ?case
  proof (cases vs)
    case Nil
    then show ?thesis by simp
  next
    case (Cons v vs')
    from Cons.prems have new: "VStr t \<notin> fst ` set d" by auto
    have disj: "fst ` set (d @ [(VStr t, v)]) \<inter> VStr ` set ts = {}"
      using Cons.prems by auto
    from Cons.prems have "distinct ts" by simp
    from Cons.IH[OF this disj, of vs'] new Cons show ?thesis
      by (simp add: setitem_def hashable_def dict_set_new_str)
  qed
qed

lemma lookup_zip_str:
  assumes "distinct ts" and "j < length ts"
  shows "dict_lookup (zip (map VStr ts) vs) (ts ! j) = (if j < length vs then Some (vs ! j) else None)"
proof (cases "j < length vs")
  case True
  let ?m = "min (length ts) (length vs)"
  have z: "zip (map VStr ts) vs = zip (take ?m (map VStr ts)) (take ?m vs)"
    using take_zip[of ?m "map VStr ts" vs] by simp
  have d: "distinct (take ?m (map VStr ts))" using assms(1) by (simp add: distinct_map inj_on_def)
  have l: "length (take ?m (map VStr ts)) = length (take ?m vs)" by simp
  have j: "j < length (take ?m vs)" using True assms(2) by simp
  from map_of_zip_nth[OF l d j] True assms(2) show ?thesis
    by (simp add: dict_lookup_def z[symmetric])
next
  case False
  have "VStr (ts ! j) \<notin> set (take (length vs) (map VStr ts))"
  proof
    assume "VStr (ts ! j) \<in> set (take (length vs) (map VStr ts))"
    then obtain i where i: "i < length vs" "i < length ts" "VStr (ts ! i) = VStr (ts ! j)"
      by (auto simp: in_set_conv_nth)
    with assms have "i = j" by (simp add: nth_eq_iff_index_eq)
    with i False show False by simp
  qed
  moreover have "fst ` set (zip (map VStr ts) vs) = set (take (length vs) (map VStr ts))"
  proof -
    have "set (map fst (zip (map VStr ts) vs)) = set (take (min (length ts) (length vs)) (map VStr ts))"
      by (simp add: map_fst_zip_take)
    moreover from False assms(2) have "min (length ts) (length vs) = length vs" by simp
    ultimately show ?thesis by simp
  qed
  ultimately have "map_of (zip (map VStr ts) vs) (VStr (ts ! j)) = None"
    by (simp add: map_of_eq_None_iff)
  with False show ?thesis by (simp add: dict_lookup_def)
qed

text \<open>
  C6. Let the formal parameters of a closure evaluate, in its captured environment, to
  distinct symbol texts \<open>ns\<close>. Called with any number of argument values, the closure
  evaluates its body in a new environment at a fresh address, chained to the captured
  environment, and returns what the body returns. The new frame is \<^verbatim>\<open>zip(ns, args)\<close>: it has
  as many bindings as the shorter of the two lists, formal \<open>j\<close> is bound to actual \<open>j\<close>
  when there is one and is not bound in the new frame otherwise, and the actuals beyond the
  formals are dropped.
\<close>

theorem closure_call_zip:
  assumes "eval_items (eval n) formals cenv s = Some (Inr (map VStr ns), s1)"
    and "distinct ns"
  shows "call (eval n) (VUdf i (VList formals) body cenv) args s =
           eval n body (Env (fresh s1) (Some cenv))
             (s1\<lparr>frames := (frames s1)(fresh s1 := zip (map VStr ns) args), fresh := Suc (fresh s1)\<rparr>) \<and>
         length (zip (map VStr ns) args) = min (length ns) (length args) \<and>
         (\<forall>j < length ns. dict_lookup (zip (map VStr ns) args) (ns ! j) =
                            (if j < length args then Some (args ! j) else None))"
proof -
  from dict_update_distinct_str[OF assms(2), of "[]" args]
  have "dict_update [] (zip (map VStr ns) args) = Inr (zip (map VStr ns) args)" by simp
  with assms(1) have "call (eval n) (VUdf i (VList formals) body cenv) args s =
           eval n body (Env (fresh s1) (Some cenv))
             (s1\<lparr>frames := (frames s1)(fresh s1 := zip (map VStr ns) args), fresh := Suc (fresh s1)\<rparr>)"
    by (simp add: call_def Udf_call_def iter_def new_env_def)
  with lookup_zip_str[OF assms(2)] show ?thesis by simp
qed

text \<open>
  The closure of \<^verbatim>\<open>((x y) y lambda)\<close> called with the one argument 7 returns the text of the
  unbound \<^verbatim>\<open>y\<close>; the closure of \<^verbatim>\<open>((x y) x lambda)\<close> called with 7, 8 and 9 returns 7 and
  drops 9.
\<close>

theorem closure_call_zip_witness:
  "call (eval 1) (VUdf 1 (VList [VAtom (ASym ''x''), VAtom (ASym ''y'')]) (VAtom (ASym ''y'')) root_env)
     [VInt 7] (Program_init\<lparr>fresh := 2\<rparr>)
   = Some (Inr (VStr ''y''),
       Program_init\<lparr>frames := (frames Program_init)(2 := [(VStr ''x'', VInt 7)]), fresh := 3\<rparr>) \<and>
   call (eval 1) (VUdf 1 (VList [VAtom (ASym ''x''), VAtom (ASym ''y'')]) (VAtom (ASym ''x'')) root_env)
     [VInt 7, VInt 8, VInt 9] (Program_init\<lparr>fresh := 2\<rparr>)
   = Some (Inr (VInt 7),
       Program_init\<lparr>frames := (frames Program_init)(2 := [(VStr ''x'', VInt 7), (VStr ''y'', VInt 8)]),
         fresh := 3\<rparr>)"
proof -
  let ?s = "Program_init\<lparr>fresh := 2\<rparr>"
  have names: "eval_items (eval 1) [VAtom (ASym ''x''), VAtom (ASym ''y'')] root_env ?s
                 = Some (Inr (map VStr [''x'', ''y'']), ?s)"
    by (simp add: eval_defs root_defs)
  have d: "distinct [''x'', ''y'']" by simp
  show ?thesis
    using closure_call_zip[OF names d, of 1 "VAtom (ASym ''y'')" "[VInt 7]"]
      closure_call_zip[OF names d, of 1 "VAtom (ASym ''x'')" "[VInt 7, VInt 8, VInt 9]"]
    by (simp add: eval_defs root_defs)
qed

subsection \<open>C4: display text and re-parsing\<close>











lemma space_not_paren: "is_space c \<Longrightarrow> \<not> paren c"
  by (auto simp: is_space_def paren_def)











declare nat_digits.simps [simp del]
























end
